theory Spec2Isabelle
  imports Complex_Main
begin

section \<open>The PID controller of PIDController.h / PIDController.cpp\<close>

text \<open>
  The C++ type \<^verbatim>\<open>float\<close> is modelled by \<^typ>\<open>real\<close>: every operation of the source
  is the exact operation on reals, and a literal stands for its decimal value. Rounding,
  overflow to infinity and values that are not a number are outside this model; where a
  property of the program depends on them, the statement keeps to the operations the
  source performs, in their order, or bounds the magnitudes involved. \<^verbatim>\<open>int\<close> is
  modelled by \<^typ>\<open>int\<close>. The fields keep the names of the source; a leading underscore
  is dropped, since an identifier cannot start with one.
\<close>

record FPIDController =
  P_Gain :: real
  I_Gain :: real
  D_Gain :: real
  ControlledValue_Max :: real
  ControlledValue_Min :: real
  PeriodicDuration :: real
  CalculationAveragingBuffer :: "real list"
  CalculationAverageBufferSize :: int
  bIsEnabled :: bool
  PreviousError :: real
  PreviousCalculation :: real
  PreviousInput :: real
  IntegralAccumulation :: real
  TickBuffer :: real

subsection \<open>Static helpers\<close>

definition ZeroThresholdRadius :: real where
  "ZeroThresholdRadius = 1 / 100000"

definition IsNearlyZero :: "real \<Rightarrow> bool" where
  "IsNearlyZero v \<longleftrightarrow>
     v = 0 \<or> (v > - ZeroThresholdRadius \<and> v < ZeroThresholdRadius)"

text \<open>
  \<^verbatim>\<open>AccumulateBuffer(float& Buffer, float DeltaTime, float BufferSize)\<close>: the result is
  the returned flag and the new content of the referenced buffer.
\<close>

definition AccumulateBuffer :: "real \<Rightarrow> real \<Rightarrow> real \<Rightarrow> bool \<times> real" where
  "AccumulateBuffer Buffer DeltaTime BufferSize =
     (let Buffer = Buffer + DeltaTime
      in if Buffer \<ge> BufferSize then (True, Buffer - BufferSize) else (False, Buffer))"

subsection \<open>The averaging buffer\<close>

text \<open>The loop of \<^verbatim>\<open>ClearAveragingBuffer\<close>: \<^verbatim>\<open>for (i = 0; i < size; i++) push_back(0.f)\<close>.\<close>

function ClearAveragingBuffer_loop :: "int \<Rightarrow> int \<Rightarrow> real list \<Rightarrow> real list" where
  "ClearAveragingBuffer_loop i n buf =
     (if i < n then ClearAveragingBuffer_loop (i + 1) n (buf @ [0]) else buf)"
  by pat_completeness auto
termination
  by (relation "measure (\<lambda>(i, n, buf). nat (n - i))") auto

declare ClearAveragingBuffer_loop.simps [simp del]

text \<open>
  \<^verbatim>\<open>std::vector::reserve\<close> takes an unsigned size: a negative \<^verbatim>\<open>int\<close> converts to a
  value above \<^verbatim>\<open>max_size()\<close>, and \<^verbatim>\<open>reserve\<close> throws \<^verbatim>\<open>std::length_error\<close>. An exception
  is the left summand of a result and ends the call that raised it. Running out of memory
  for a large size is not modelled.
\<close>

datatype error = length_error

definition ClearAveragingBuffer :: "FPIDController \<Rightarrow> error + FPIDController" where
  "ClearAveragingBuffer s =
     (let buf = [] in
      if CalculationAverageBufferSize s < 0 then Inl length_error
      else Inr (s\<lparr>CalculationAveragingBuffer :=
                   (if CalculationAverageBufferSize s > 0
                    then ClearAveragingBuffer_loop 0 (CalculationAverageBufferSize s) buf
                    else buf)\<rparr>))"

definition GetAveragingBufferSize :: "FPIDController \<Rightarrow> int" where
  "GetAveragingBufferSize s = CalculationAverageBufferSize s"

text \<open>
  \<^verbatim>\<open>push_back\<close> followed by \<^verbatim>\<open>erase(begin())\<close>: the new value is appended and the
  oldest one dropped.
\<close>

definition CachePreviousCalculation :: "real \<Rightarrow> FPIDController \<Rightarrow> FPIDController" where
  "CachePreviousCalculation CalculatedValue s =
     (let s = s\<lparr>PreviousCalculation := CalculatedValue\<rparr>
      in if GetAveragingBufferSize s > 1
         then s\<lparr>CalculationAveragingBuffer :=
                  tl (CalculationAveragingBuffer s @ [CalculatedValue])\<rparr>
         else s)"

definition SetAveragingBufferSize :: "int \<Rightarrow> FPIDController \<Rightarrow> error + FPIDController" where
  "SetAveragingBufferSize AveragingBufferSize s =
     ClearAveragingBuffer (s\<lparr>CalculationAverageBufferSize := AveragingBufferSize\<rparr>)"

text \<open>
  The loop of \<^verbatim>\<open>GetAverageCalculatedValue\<close>, which leaves at the first index that is
  not stored in the buffer.
\<close>

function GetAverage_loop :: "int \<Rightarrow> int \<Rightarrow> real list \<Rightarrow> real \<Rightarrow> real" where
  "GetAverage_loop i n buf Average =
     (if i < n
      then (if i \<ge> int (length buf) then Average
            else GetAverage_loop (i + 1) n buf (Average + buf ! nat i))
      else Average)"
  by pat_completeness auto
termination
  by (relation "measure (\<lambda>(i, n, buf, Average). nat (n - i))") auto

declare GetAverage_loop.simps [simp del]

definition GetAverageCalculatedValue :: "FPIDController \<Rightarrow> real" where
  "GetAverageCalculatedValue s =
     (let AveragingBufferSize = GetAveragingBufferSize s
      in if AveragingBufferSize \<le> 1 then PreviousCalculation s
         else GetAverage_loop 0 AveragingBufferSize (CalculationAveragingBuffer s) 0
                / real_of_int AveragingBufferSize)"

subsection \<open>Construction and clearing\<close>

definition ClearState :: "FPIDController \<Rightarrow> error + FPIDController" where
  "ClearState s =
     ClearAveragingBuffer
       (s\<lparr>bIsEnabled := True, TickBuffer := 0, IntegralAccumulation := 0,
          PreviousCalculation := 0, PreviousInput := 0, PreviousError := 0\<rparr>)"

text \<open>
  The default constructor assigns every field; the record it starts from stands for the
  storage before construction. A constructor passes on an exception of \<^verbatim>\<open>ClearState\<close>.
\<close>

definition FPIDController_default :: "error + FPIDController" where
  "FPIDController_default =
     (let s = \<lparr>P_Gain = 0, I_Gain = 0, D_Gain = 0, ControlledValue_Max = 0,
                ControlledValue_Min = 0, PeriodicDuration = 0,
                CalculationAveragingBuffer = [], CalculationAverageBufferSize = 0,
                bIsEnabled = False, PreviousError = 0, PreviousCalculation = 0,
                PreviousInput = 0, IntegralAccumulation = 0, TickBuffer = 0\<rparr>;
          s = s\<lparr>CalculationAverageBufferSize := 1\<rparr>
      in case ClearState s of
           Inl e \<Rightarrow> Inl e
         | Inr s \<Rightarrow>
             Inr (s\<lparr>ControlledValue_Max := 1, ControlledValue_Min := 0,
                    PeriodicDuration := 2 / 10, P_Gain := 1, I_Gain := 0, D_Gain := 0\<rparr>))"

definition FPIDController_new ::
  "real \<Rightarrow> real \<Rightarrow> real \<Rightarrow> real \<Rightarrow> real \<Rightarrow> real \<Rightarrow> error + FPIDController" where
  "FPIDController_new InP_Gain InI_Gain InD_Gain MaxValue MinValue InPeriodicDuration =
     (case FPIDController_default of
        Inl e \<Rightarrow> Inl e
      | Inr s \<Rightarrow>
          Inr (s\<lparr>P_Gain := InP_Gain, I_Gain := InI_Gain, D_Gain := InD_Gain,
                 ControlledValue_Max := MaxValue, ControlledValue_Min := MinValue,
                 PeriodicDuration := InPeriodicDuration\<rparr>))"

subsection \<open>The three terms\<close>

definition ProportionalError :: "real \<Rightarrow> FPIDController \<Rightarrow> real" where
  "ProportionalError Error s =
     (if IsNearlyZero (P_Gain s) then 0 else P_Gain s * Error)"

text \<open>\<^verbatim>\<open>IntegralError\<close> updates the accumulator: it returns its value and the new state.\<close>

definition IntegralError :: "real \<Rightarrow> real \<Rightarrow> FPIDController \<Rightarrow> real \<times> FPIDController" where
  "IntegralError Error DeltaTime s =
     (if IsNearlyZero (I_Gain s) then (IntegralAccumulation s, s)
      else
        let s = s\<lparr>IntegralAccumulation :=
                    IntegralAccumulation s + I_Gain s * Error * DeltaTime\<rparr>;
            s = (if IntegralAccumulation s > ControlledValue_Max s
                 then s\<lparr>IntegralAccumulation := ControlledValue_Max s\<rparr>
                 else if IntegralAccumulation s < ControlledValue_Min s
                 then s\<lparr>IntegralAccumulation := ControlledValue_Min s\<rparr>
                 else s)
        in (IntegralAccumulation s, s))"

definition DifferentialError :: "real \<Rightarrow> real \<Rightarrow> FPIDController \<Rightarrow> real" where
  "DifferentialError Error DeltaTime s =
     (if DeltaTime < 0 \<or> IsNearlyZero DeltaTime \<or> IsNearlyZero (D_Gain s) then 0
      else D_Gain s * ((Error - PreviousError s) / DeltaTime))"

definition DifferentialError_PreventDerivativeKick ::
  "real \<Rightarrow> real \<Rightarrow> FPIDController \<Rightarrow> real" where
  "DifferentialError_PreventDerivativeKick CurrentInput DeltaTime s =
     (if DeltaTime < 0 \<or> IsNearlyZero DeltaTime \<or> IsNearlyZero (D_Gain s) then 0
      else - 1 * D_Gain s * ((CurrentInput - PreviousInput s) / DeltaTime))"

definition CachePreviousError :: "real \<Rightarrow> FPIDController \<Rightarrow> FPIDController" where
  "CachePreviousError Error s = s\<lparr>PreviousError := Error\<rparr>"

definition CachePreviousInput :: "real \<Rightarrow> FPIDController \<Rightarrow> FPIDController" where
  "CachePreviousInput InputValue s = s\<lparr>PreviousInput := InputValue\<rparr>"

definition ClampAndCacheOutput :: "real \<Rightarrow> FPIDController \<Rightarrow> real \<times> FPIDController" where
  "ClampAndCacheOutput OutputValue s =
     (let OutputValue =
            (if OutputValue > ControlledValue_Max s then ControlledValue_Max s
             else if OutputValue < ControlledValue_Min s then ControlledValue_Min s
             else OutputValue)
      in (OutputValue, CachePreviousCalculation OutputValue s))"

subsection \<open>The two calculations\<close>

text \<open>
  A calculation returns its value, the text it writes to \<^verbatim>\<open>std::cout\<close> and the
  controller after the call. \<^verbatim>\<open>CalculateNewValue\<close> is the overload that takes the
  setpoint and the measured value, \<^verbatim>\<open>CalculateNewValue_Error\<close> the one that takes the
  error.
\<close>

definition CalculateNewValue ::
  "real \<Rightarrow> real \<Rightarrow> real \<Rightarrow> FPIDController \<Rightarrow> real \<times> string \<times> FPIDController" where
  "CalculateNewValue TargetSetpoint CurrentValue DeltaTime s =
     (if IsNearlyZero DeltaTime then (0, ''delta time nearly zero'', s)
      else
        let Error = TargetSetpoint - CurrentValue;
            Output = 0;
            Output = Output + ProportionalError Error s;
            (i, s) = IntegralError Error DeltaTime s;
            Output = Output + i;
            Output = Output + DifferentialError_PreventDerivativeKick CurrentValue DeltaTime s;
            s = CachePreviousError Error s;
            s = CachePreviousInput CurrentValue s;
            (r, s) = ClampAndCacheOutput Output s
        in (r, [], s))"

definition CalculateNewValue_Error ::
  "real \<Rightarrow> real \<Rightarrow> FPIDController \<Rightarrow> real \<times> string \<times> FPIDController" where
  "CalculateNewValue_Error Error DeltaTime s =
     (if IsNearlyZero DeltaTime then (0, ''delta time nearly zero'', s)
      else
        let Output = 0;
            Output = Output + ProportionalError Error s;
            (i, s) = IntegralError Error DeltaTime s;
            Output = Output + i;
            Output = Output + DifferentialError Error DeltaTime s;
            s = CachePreviousError Error s;
            (r, s) = ClampAndCacheOutput Output s
        in (r, [], s))"

subsection \<open>The periodic tick\<close>

text \<open>
  \<^verbatim>\<open>Tick\<close> drops the value of the calculation; it returns its flag, the text written
  and the controller after the call.
\<close>

definition Tick ::
  "real \<Rightarrow> real \<Rightarrow> real \<Rightarrow> FPIDController \<Rightarrow> bool \<times> string \<times> FPIDController" where
  "Tick TargetSetpoint CurrentValue DeltaTime s =
     (if PeriodicDuration s > 0 then
        if DeltaTime > PeriodicDuration s then
          let (b, buf) = AccumulateBuffer (TickBuffer s) DeltaTime DeltaTime;
              s = s\<lparr>TickBuffer := buf\<rparr>;
              (r, out, s) = CalculateNewValue TargetSetpoint CurrentValue DeltaTime s
          in (True, out, s)
        else
          let (b, buf) = AccumulateBuffer (TickBuffer s) DeltaTime (PeriodicDuration s);
              s = s\<lparr>TickBuffer := buf\<rparr>
          in if b = True then
               let (r, out, s) =
                     CalculateNewValue TargetSetpoint CurrentValue (PeriodicDuration s) s
               in (True, out, s)
             else (False, [], s)
      else
        let (r, out, s) = CalculateNewValue TargetSetpoint CurrentValue DeltaTime s
        in (True, out, s))"

definition Tick_Error ::
  "real \<Rightarrow> real \<Rightarrow> FPIDController \<Rightarrow> bool \<times> string \<times> FPIDController" where
  "Tick_Error Error DeltaTime s =
     (if PeriodicDuration s > 0 then
        if DeltaTime > PeriodicDuration s then
          let (b, buf) = AccumulateBuffer (TickBuffer s) DeltaTime DeltaTime;
              s = s\<lparr>TickBuffer := buf\<rparr>;
              (r, out, s) = CalculateNewValue_Error Error DeltaTime s
          in (True, out, s)
        else
          let (b, buf) = AccumulateBuffer (TickBuffer s) DeltaTime (PeriodicDuration s);
              s = s\<lparr>TickBuffer := buf\<rparr>
          in if b = True then
               let (r, out, s) = CalculateNewValue_Error Error (PeriodicDuration s) s
               in (True, out, s)
             else (False, [], s)
      else
        let (r, out, s) = CalculateNewValue_Error Error DeltaTime s
        in (True, out, s))"

definition IsEnabled :: "FPIDController \<Rightarrow> bool" where
  "IsEnabled s = bIsEnabled s"

definition TickIfEnabled ::
  "real \<Rightarrow> real \<Rightarrow> real \<Rightarrow> FPIDController \<Rightarrow> bool \<times> string \<times> FPIDController" where
  "TickIfEnabled TargetSetpoint CurrentValue DeltaTime s =
     (if IsEnabled s then Tick TargetSetpoint CurrentValue DeltaTime s else (False, [], s))"

definition TickIfEnabled_Error ::
  "real \<Rightarrow> real \<Rightarrow> FPIDController \<Rightarrow> bool \<times> string \<times> FPIDController" where
  "TickIfEnabled_Error Error DeltaTime s =
     (if IsEnabled s then Tick_Error Error DeltaTime s else (False, [], s))"

subsection \<open>Retuning and enabling\<close>

definition GetLastCalculatedValue :: "FPIDController \<Rightarrow> real" where
  "GetLastCalculatedValue s = PreviousCalculation s"

definition SetPeriodicDuration :: "real \<Rightarrow> FPIDController \<Rightarrow> FPIDController" where
  "SetPeriodicDuration NewPeriodicDuration s =
     (let s = (if NewPeriodicDuration > 0 \<and> IsNearlyZero NewPeriodicDuration = False \<and>
                  PeriodicDuration s > 0 \<and> IsNearlyZero (PeriodicDuration s) = False
               then
                 let GainChangeRatio = NewPeriodicDuration / PeriodicDuration s;
                     s = s\<lparr>I_Gain := I_Gain s * GainChangeRatio\<rparr>
                 in s\<lparr>D_Gain := D_Gain s / GainChangeRatio\<rparr>
               else s)
      in s\<lparr>PeriodicDuration := NewPeriodicDuration\<rparr>)"

definition Initialize :: "bool \<Rightarrow> FPIDController \<Rightarrow> error + FPIDController" where
  "Initialize bClearIntegralAccumulation s =
     (let s = (if bClearIntegralAccumulation then s\<lparr>IntegralAccumulation := 0\<rparr>
               else s\<lparr>IntegralAccumulation := GetLastCalculatedValue s\<rparr>);
          s = (if IntegralAccumulation s > ControlledValue_Max s
               then s\<lparr>IntegralAccumulation := ControlledValue_Max s\<rparr>
               else if IntegralAccumulation s < ControlledValue_Min s
               then s\<lparr>IntegralAccumulation := ControlledValue_Min s\<rparr>
               else s)
      in ClearState s)"

definition SetEnabled ::
  "bool \<Rightarrow> bool \<Rightarrow> FPIDController \<Rightarrow> error + FPIDController" where
  "SetEnabled IsEnabled' bClearIntegralAccumulation s =
     (case (if IsEnabled s = False \<and> IsEnabled' = True
            then Initialize bClearIntegralAccumulation s else Inr s) of
        Inl e \<Rightarrow> Inl e
      | Inr s \<Rightarrow> Inr (s\<lparr>bIsEnabled := IsEnabled'\<rparr>))"

subsection \<open>Calls from the owner of a controller\<close>

text \<open>
  The operations that the owner of a controller can invoke: the public member functions
  and assignments to the three public gain fields. A call that returns yields the values
  that a calculation returns to the caller (a tick drops the value of its calculation,
  which stays readable through \<^verbatim>\<open>GetLastCalculatedValue\<close>) and the controller after it.
  A sequence of calls ends at the first exception.
\<close>

datatype call =
    Calculate real real real
  | Calculate_Error real real
  | Tick_call real real real
  | Tick_Error_call real real
  | TickIfEnabled_call real real real
  | TickIfEnabled_Error_call real real
  | SetPeriodicDuration_call real
  | SetEnabled_call bool bool
  | SetAveragingBufferSize_call int
  | ClearState_call
  | Assign_gains real real real

fun perform :: "call \<Rightarrow> FPIDController \<Rightarrow> error + real list \<times> FPIDController" where
  "perform (Calculate t c dt) s =
     (let (r, out, s) = CalculateNewValue t c dt s in Inr ([r], s))"
| "perform (Calculate_Error e dt) s =
     (let (r, out, s) = CalculateNewValue_Error e dt s in Inr ([r], s))"
| "perform (Tick_call t c dt) s = Inr ([], snd (snd (Tick t c dt s)))"
| "perform (Tick_Error_call e dt) s = Inr ([], snd (snd (Tick_Error e dt s)))"
| "perform (TickIfEnabled_call t c dt) s = Inr ([], snd (snd (TickIfEnabled t c dt s)))"
| "perform (TickIfEnabled_Error_call e dt) s =
     Inr ([], snd (snd (TickIfEnabled_Error e dt s)))"
| "perform (SetPeriodicDuration_call n) s = Inr ([], SetPeriodicDuration n s)"
| "perform (SetEnabled_call b c) s =
     (case SetEnabled b c s of Inl e \<Rightarrow> Inl e | Inr s \<Rightarrow> Inr ([], s))"
| "perform (SetAveragingBufferSize_call n) s =
     (case SetAveragingBufferSize n s of Inl e \<Rightarrow> Inl e | Inr s \<Rightarrow> Inr ([], s))"
| "perform ClearState_call s =
     (case ClearState s of Inl e \<Rightarrow> Inl e | Inr s \<Rightarrow> Inr ([], s))"
| "perform (Assign_gains p i d) s =
     Inr ([], s\<lparr>P_Gain := p, I_Gain := i, D_Gain := d\<rparr>)"

fun run :: "call list \<Rightarrow> FPIDController \<Rightarrow> error + real list \<times> FPIDController" where
  "run [] s = Inr ([], s)"
| "run (c # cs) s =
     (case perform c s of
        Inl e \<Rightarrow> Inl e
      | Inr (vs, s) \<Rightarrow>
          (case run cs s of Inl e \<Rightarrow> Inl e | Inr (ws, s) \<Rightarrow> Inr (vs @ ws, s)))"



subsection \<open>Controllers used as concrete inputs\<close>

text \<open>
  The controller that the constructor with six arguments returns; the constructor sets
  the buffer size to 1 before it clears the state, so it does not throw.
\<close>

definition constructed ::
  "real \<Rightarrow> real \<Rightarrow> real \<Rightarrow> real \<Rightarrow> real \<Rightarrow> real \<Rightarrow> FPIDController" where
  "constructed InP_Gain InI_Gain InD_Gain MaxValue MinValue InPeriodicDuration =
     projr (FPIDController_new InP_Gain InI_Gain InD_Gain MaxValue MinValue
              InPeriodicDuration)"

text \<open>
  A controller with gains 1, 0, 0 and output range 0 to 1 that has calculated the output
  1/2 and has then been disabled.
\<close>

definition disabled_after_output :: FPIDController where
  "disabled_after_output =
     projr (SetEnabled False False
              (snd (snd (CalculateNewValue_Error (1 / 2) 1 (constructed 1 0 0 1 0 (2 / 10))))))"

text \<open>
  A controller that has accumulated the integral 1/2 with integral gain 1 (the other gains
  are 0), and whose integral gain has then been set to 0.
\<close>

definition frozen_integral :: FPIDController where
  "frozen_integral =
     (snd (snd (CalculateNewValue_Error (1 / 2) 1 (constructed 0 1 0 1 0 (2 / 10)))))
       \<lparr>I_Gain := 0\<rparr>"

text \<open>
  A controller with period 1 that has been ticked once with 3/4 and whose period has then
  been set to 1/4.
\<close>

definition period_lowered :: FPIDController where
  "period_lowered =
     SetPeriodicDuration (1 / 4)
       (snd (snd (Tick_Error 0 (3 / 4) (constructed 1 0 0 1 0 1))))"

text \<open>
  A controller with an averaging window of 3 values, gains 1, 0, 0 and output range 0 to 1,
  after the calculations for the errors 0.2, 0.4 and 0.6.
\<close>

definition window_of_three :: FPIDController where
  "window_of_three = projr (SetAveragingBufferSize 3 (constructed 1 0 0 1 0 (2 / 10)))"

definition after_three_outputs :: FPIDController where
  "after_three_outputs =
     snd (projr (run [Calculate_Error (2 / 10) 1, Calculate_Error (4 / 10) 1,
                      Calculate_Error (6 / 10) 1] window_of_three))"

text \<open>The averaging buffer holds as many values as its size says (none for a size below 1).\<close>

definition buffer_filled :: "FPIDController \<Rightarrow> bool" where
  "buffer_filled s \<longleftrightarrow>
     length (CalculationAveragingBuffer s) = nat (CalculationAverageBufferSize s)"

text \<open>A value lies in the output range of a controller.\<close>

definition within_range :: "FPIDController \<Rightarrow> real \<Rightarrow> bool" where
  "within_range s v \<longleftrightarrow> ControlledValue_Min s \<le> v \<and> v \<le> ControlledValue_Max s"

text \<open>
  The output range contains 0, the integral accumulator and the last calculated value.
\<close>

definition bounded :: "FPIDController \<Rightarrow> bool" where
  "bounded s \<longleftrightarrow>
     within_range s 0 \<and> within_range s (IntegralAccumulation s) \<and>
     within_range s (GetLastCalculatedValue s)"

section \<open>Basic facts\<close>

lemma ClearAveragingBuffer_loop_replicate:
  "ClearAveragingBuffer_loop i n buf = buf @ replicate (nat (n - i)) 0"
proof (induction i n buf rule: ClearAveragingBuffer_loop.induct)
  case (1 i n buf)
  show ?case
  proof (cases "i < n")
    case True
    then have "nat (n - i) = Suc (nat (n - (i + 1)))" by simp
    with True 1 show ?thesis
      by (subst ClearAveragingBuffer_loop.simps) (simp add: replicate_append_same)
  next
    case False
    then show ?thesis
      by (subst ClearAveragingBuffer_loop.simps) simp
  qed
qed

lemma ClearAveragingBuffer_eq:
  "ClearAveragingBuffer s =
     (if CalculationAverageBufferSize s < 0 then Inl length_error
      else Inr (s\<lparr>CalculationAveragingBuffer :=
                   replicate (nat (CalculationAverageBufferSize s)) 0\<rparr>))"
  by (simp add: ClearAveragingBuffer_def ClearAveragingBuffer_loop_replicate)

lemma SetAveragingBufferSize_eq:
  "SetAveragingBufferSize n s =
     (if n < 0 then Inl length_error
      else Inr (s\<lparr>CalculationAverageBufferSize := n,
                  CalculationAveragingBuffer := replicate (nat n) 0\<rparr>))"
  by (simp add: SetAveragingBufferSize_def ClearAveragingBuffer_eq)

lemma ClearState_eq:
  "ClearState s =
     (if CalculationAverageBufferSize s < 0 then Inl length_error
      else Inr (s\<lparr>bIsEnabled := True, TickBuffer := 0, IntegralAccumulation := 0,
                  PreviousCalculation := 0, PreviousInput := 0, PreviousError := 0,
                  CalculationAveragingBuffer :=
                    replicate (nat (CalculationAverageBufferSize s)) 0\<rparr>))"
  by (simp add: ClearState_def ClearAveragingBuffer_eq)

lemma SetEnabled_eq:
  "SetEnabled b c s =
     (if \<not> bIsEnabled s \<and> b
      then if CalculationAverageBufferSize s < 0 then Inl length_error
           else Inr (s\<lparr>bIsEnabled := True, TickBuffer := 0, IntegralAccumulation := 0,
                       PreviousCalculation := 0, PreviousInput := 0, PreviousError := 0,
                       CalculationAveragingBuffer :=
                         replicate (nat (CalculationAverageBufferSize s)) 0\<rparr>)
      else Inr (s\<lparr>bIsEnabled := b\<rparr>))"
  by (simp add: SetEnabled_def Initialize_def IsEnabled_def ClearState_eq Let_def)

lemma FPIDController_default_returns:
  "FPIDController_default =
     Inr \<lparr>P_Gain = 1, I_Gain = 0, D_Gain = 0, ControlledValue_Max = 1,
          ControlledValue_Min = 0, PeriodicDuration = 2 / 10,
          CalculationAveragingBuffer = [0], CalculationAverageBufferSize = 1,
          bIsEnabled = True, PreviousError = 0, PreviousCalculation = 0,
          PreviousInput = 0, IntegralAccumulation = 0, TickBuffer = 0\<rparr>"
  by (simp add: FPIDController_default_def ClearState_eq)

lemma constructed_eq:
  "constructed p i d mx mn per =
     \<lparr>P_Gain = p, I_Gain = i, D_Gain = d, ControlledValue_Max = mx,
      ControlledValue_Min = mn, PeriodicDuration = per,
      CalculationAveragingBuffer = [0], CalculationAverageBufferSize = 1,
      bIsEnabled = True, PreviousError = 0, PreviousCalculation = 0,
      PreviousInput = 0, IntegralAccumulation = 0, TickBuffer = 0\<rparr>"
  by (simp add: constructed_def FPIDController_new_def FPIDController_default_returns)


lemma FPIDController_default_new:
  "FPIDController_default = FPIDController_new 1 0 0 1 0 (2 / 10)"
  by (simp add: FPIDController_new_def FPIDController_default_returns)

lemmas term_defs = ProportionalError_def IntegralError_def DifferentialError_def
  DifferentialError_PreventDerivativeKick_def CachePreviousError_def CachePreviousInput_def
  ClampAndCacheOutput_def CachePreviousCalculation_def GetAveragingBufferSize_def

lemmas calc_defs = CalculateNewValue_def CalculateNewValue_Error_def term_defs

lemmas zero_defs = IsNearlyZero_def ZeroThresholdRadius_def

lemmas ctor_defs = constructed_eq

subsection \<open>The parts of a calculation\<close>

lemma IntegralError_fields:
  "P_Gain (snd (IntegralError e dt s)) = P_Gain s"
  "I_Gain (snd (IntegralError e dt s)) = I_Gain s"
  "D_Gain (snd (IntegralError e dt s)) = D_Gain s"
  "ControlledValue_Max (snd (IntegralError e dt s)) = ControlledValue_Max s"
  "ControlledValue_Min (snd (IntegralError e dt s)) = ControlledValue_Min s"
  "PeriodicDuration (snd (IntegralError e dt s)) = PeriodicDuration s"
  "CalculationAveragingBuffer (snd (IntegralError e dt s)) = CalculationAveragingBuffer s"
  "CalculationAverageBufferSize (snd (IntegralError e dt s)) = CalculationAverageBufferSize s"
  "bIsEnabled (snd (IntegralError e dt s)) = bIsEnabled s"
  "PreviousError (snd (IntegralError e dt s)) = PreviousError s"
  "PreviousCalculation (snd (IntegralError e dt s)) = PreviousCalculation s"
  "PreviousInput (snd (IntegralError e dt s)) = PreviousInput s"
  "TickBuffer (snd (IntegralError e dt s)) = TickBuffer s"
  by (simp_all add: IntegralError_def Let_def)

lemma IntegralError_fst:
  "fst (IntegralError e dt s) = IntegralAccumulation (snd (IntegralError e dt s))"
  by (simp add: IntegralError_def Let_def)

lemma DifferentialError_IntegralError:
  "DifferentialError e dt (snd (IntegralError e' dt' s)) = DifferentialError e dt s"
  "DifferentialError_PreventDerivativeKick c dt (snd (IntegralError e' dt' s))
     = DifferentialError_PreventDerivativeKick c dt s"
  by (simp_all add: DifferentialError_def DifferentialError_PreventDerivativeKick_def
      IntegralError_fields)

lemma ClampAndCacheOutput_fst:
  "fst (ClampAndCacheOutput v s) =
     (if ControlledValue_Max s < v then ControlledValue_Max s
      else if v < ControlledValue_Min s then ControlledValue_Min s else v)"
  by (simp add: ClampAndCacheOutput_def Let_def)

lemma ClampAndCacheOutput_fields:
  "P_Gain (snd (ClampAndCacheOutput v s)) = P_Gain s"
  "I_Gain (snd (ClampAndCacheOutput v s)) = I_Gain s"
  "D_Gain (snd (ClampAndCacheOutput v s)) = D_Gain s"
  "ControlledValue_Max (snd (ClampAndCacheOutput v s)) = ControlledValue_Max s"
  "ControlledValue_Min (snd (ClampAndCacheOutput v s)) = ControlledValue_Min s"
  "PeriodicDuration (snd (ClampAndCacheOutput v s)) = PeriodicDuration s"
  "CalculationAverageBufferSize (snd (ClampAndCacheOutput v s)) = CalculationAverageBufferSize s"
  "bIsEnabled (snd (ClampAndCacheOutput v s)) = bIsEnabled s"
  "PreviousError (snd (ClampAndCacheOutput v s)) = PreviousError s"
  "PreviousInput (snd (ClampAndCacheOutput v s)) = PreviousInput s"
  "IntegralAccumulation (snd (ClampAndCacheOutput v s)) = IntegralAccumulation s"
  "TickBuffer (snd (ClampAndCacheOutput v s)) = TickBuffer s"
  "PreviousCalculation (snd (ClampAndCacheOutput v s)) = fst (ClampAndCacheOutput v s)"
  by (simp_all add: ClampAndCacheOutput_def CachePreviousCalculation_def Let_def)

lemma CalculateNewValue_fst:
  "fst (CalculateNewValue t c dt s) =
     (if IsNearlyZero dt then 0
      else fst (ClampAndCacheOutput
                  (ProportionalError (t - c) s + fst (IntegralError (t - c) dt s)
                     + DifferentialError_PreventDerivativeKick c dt s) s))"
  by (simp add: CalculateNewValue_def Let_def case_prod_beta ClampAndCacheOutput_fst
      CachePreviousError_def CachePreviousInput_def IntegralError_fields
      DifferentialError_IntegralError)

lemma CalculateNewValue_Error_fst:
  "fst (CalculateNewValue_Error e dt s) =
     (if IsNearlyZero dt then 0
      else fst (ClampAndCacheOutput
                  (ProportionalError e s + fst (IntegralError e dt s)
                     + DifferentialError e dt s) s))"
  by (simp add: CalculateNewValue_Error_def Let_def case_prod_beta ClampAndCacheOutput_fst
      CachePreviousError_def IntegralError_fields DifferentialError_IntegralError)

lemma CalculateNewValue_snd:
  "snd (snd (CalculateNewValue t c dt s)) =
     (if IsNearlyZero dt then s
      else snd (ClampAndCacheOutput
                  (ProportionalError (t - c) s + fst (IntegralError (t - c) dt s)
                     + DifferentialError_PreventDerivativeKick c dt s)
                  (snd (IntegralError (t - c) dt s)
                     \<lparr>PreviousError := t - c, PreviousInput := c\<rparr>)))"
  by (simp add: CalculateNewValue_def Let_def case_prod_beta CachePreviousError_def
      CachePreviousInput_def DifferentialError_IntegralError)

lemma CalculateNewValue_Error_snd:
  "snd (snd (CalculateNewValue_Error e dt s)) =
     (if IsNearlyZero dt then s
      else snd (ClampAndCacheOutput
                  (ProportionalError e s + fst (IntegralError e dt s)
                     + DifferentialError e dt s)
                  (snd (IntegralError e dt s)\<lparr>PreviousError := e\<rparr>)))"
  by (simp add: CalculateNewValue_Error_def Let_def case_prod_beta CachePreviousError_def
      DifferentialError_IntegralError)

lemma calc_keeps:
  "TickBuffer (snd (snd (CalculateNewValue t c dt s))) = TickBuffer s"
  "PeriodicDuration (snd (snd (CalculateNewValue t c dt s))) = PeriodicDuration s"
  "TickBuffer (snd (snd (CalculateNewValue_Error e dt s))) = TickBuffer s"
  "PeriodicDuration (snd (snd (CalculateNewValue_Error e dt s))) = PeriodicDuration s"
  by (simp_all add: calc_defs Let_def)


lemma calc_integral:
  "IntegralAccumulation (snd (snd (CalculateNewValue t c dt s))) =
     (if IsNearlyZero dt then IntegralAccumulation s else fst (IntegralError (t - c) dt s))"
  "IntegralAccumulation (snd (snd (CalculateNewValue_Error e dt s))) =
     (if IsNearlyZero dt then IntegralAccumulation s else fst (IntegralError e dt s))"
  by (simp_all add: CalculateNewValue_snd CalculateNewValue_Error_snd
      ClampAndCacheOutput_fields IntegralError_fst)

lemma calc_last:
  "PreviousCalculation (snd (snd (CalculateNewValue t c dt s))) =
     (if IsNearlyZero dt then PreviousCalculation s else fst (CalculateNewValue t c dt s))"
  "PreviousCalculation (snd (snd (CalculateNewValue_Error e dt s))) =
     (if IsNearlyZero dt then PreviousCalculation s else fst (CalculateNewValue_Error e dt s))"
  by (simp_all add: CalculateNewValue_snd CalculateNewValue_Error_snd
      CalculateNewValue_fst CalculateNewValue_Error_fst ClampAndCacheOutput_fields
      ClampAndCacheOutput_fst IntegralError_fields)





subsection \<open>The parts of a tick\<close>

lemma AccumulateBuffer_unfold:
  "AccumulateBuffer b dt n = (if n \<le> b + dt then (True, b + dt - n) else (False, b + dt))"
  by (simp add: AccumulateBuffer_def Let_def)

lemma Tick_unfold:
  "Tick t c dt s =
     (if 0 < PeriodicDuration s then
        if PeriodicDuration s < dt
        then (True, snd (CalculateNewValue t c dt
                (s\<lparr>TickBuffer := snd (AccumulateBuffer (TickBuffer s) dt dt)\<rparr>)))
        else if fst (AccumulateBuffer (TickBuffer s) dt (PeriodicDuration s))
        then (True, snd (CalculateNewValue t c (PeriodicDuration s)
                (s\<lparr>TickBuffer := snd (AccumulateBuffer (TickBuffer s) dt (PeriodicDuration s))\<rparr>)))
        else (False, [],
                s\<lparr>TickBuffer := snd (AccumulateBuffer (TickBuffer s) dt (PeriodicDuration s))\<rparr>)
      else (True, snd (CalculateNewValue t c dt s)))"
  by (simp add: Tick_def Let_def case_prod_beta)

lemma Tick_Error_unfold:
  "Tick_Error e dt s =
     (if 0 < PeriodicDuration s then
        if PeriodicDuration s < dt
        then (True, snd (CalculateNewValue_Error e dt
                (s\<lparr>TickBuffer := snd (AccumulateBuffer (TickBuffer s) dt dt)\<rparr>)))
        else if fst (AccumulateBuffer (TickBuffer s) dt (PeriodicDuration s))
        then (True, snd (CalculateNewValue_Error e (PeriodicDuration s)
                (s\<lparr>TickBuffer := snd (AccumulateBuffer (TickBuffer s) dt (PeriodicDuration s))\<rparr>)))
        else (False, [],
                s\<lparr>TickBuffer := snd (AccumulateBuffer (TickBuffer s) dt (PeriodicDuration s))\<rparr>)
      else (True, snd (CalculateNewValue_Error e dt s)))"
  by (simp add: Tick_Error_def Let_def case_prod_beta)

lemma tick_buffer:
  "TickBuffer (snd (snd (Tick t c dt s))) =
     (if 0 < PeriodicDuration s
      then snd (AccumulateBuffer (TickBuffer s) dt
                 (if PeriodicDuration s < dt then dt else PeriodicDuration s))
      else TickBuffer s)"
  "TickBuffer (snd (snd (Tick_Error e dt s))) =
     (if 0 < PeriodicDuration s
      then snd (AccumulateBuffer (TickBuffer s) dt
                 (if PeriodicDuration s < dt then dt else PeriodicDuration s))
      else TickBuffer s)"
  by (simp_all add: Tick_unfold Tick_Error_unfold calc_keeps)

lemma tick_flag:
  "fst (Tick t c dt s) =
     (if 0 < PeriodicDuration s \<and> dt \<le> PeriodicDuration s
      then fst (AccumulateBuffer (TickBuffer s) dt (PeriodicDuration s)) else True)"
  "fst (Tick_Error e dt s) =
     (if 0 < PeriodicDuration s \<and> dt \<le> PeriodicDuration s
      then fst (AccumulateBuffer (TickBuffer s) dt (PeriodicDuration s)) else True)"
  by (simp_all add: Tick_unfold Tick_Error_unfold)

lemma tick_period:
  "PeriodicDuration (snd (snd (Tick t c dt s))) = PeriodicDuration s"
  "PeriodicDuration (snd (snd (Tick_Error e dt s))) = PeriodicDuration s"
  by (simp_all add: Tick_unfold Tick_Error_unfold calc_keeps)


subsection \<open>Values that stay in the output range\<close>






lemma bounded_TickBuffer [simp]: "bounded (s\<lparr>TickBuffer := b\<rparr>) = bounded s"
  by (simp add: bounded_def within_range_def GetLastCalculatedValue_def)







subsection \<open>The averaging buffer stays filled\<close>

lemma GetAverage_loop_sum:
  "0 \<le> i \<Longrightarrow>
   GetAverage_loop i n buf a = a + sum_list (drop (nat i) (take (nat n) buf))"
proof (induction i n buf a rule: GetAverage_loop.induct)
  case (1 i n buf a)
  show ?case
  proof (cases "i < n \<and> i < int (length buf)")
    case True
    with 1 have ih: "GetAverage_loop (i + 1) n buf (a + buf ! nat i)
        = a + buf ! nat i + sum_list (drop (nat (i + 1)) (take (nat n) buf))"
      by simp
    from True 1(2) have lt: "nat i < length (take (nat n) buf)"
      by (simp add: nat_less_iff)
    from 1(2) have "nat (i + 1) = Suc (nat i)" by simp
    with Cons_nth_drop_Suc [OF lt]
    have "drop (nat i) (take (nat n) buf)
        = take (nat n) buf ! nat i # drop (nat (i + 1)) (take (nat n) buf)"
      by simp
    moreover from True 1(2) have "take (nat n) buf ! nat i = buf ! nat i"
      by (simp add: nat_less_iff)
    ultimately show ?thesis
      using True ih by (subst GetAverage_loop.simps) simp
  next
    case False
    with 1(2) have "drop (nat i) (take (nat n) buf) = []" by auto
    with False show ?thesis
      by (subst GetAverage_loop.simps) auto
  qed
qed

lemma GetAverage_loop_filled:
  "length buf = nat n \<Longrightarrow> GetAverage_loop 0 n buf 0 = sum_list buf"
  by (simp add: GetAverage_loop_sum)

lemma average_of_filled:
  assumes "buffer_filled s"
  shows "GetAverageCalculatedValue s =
           (if 1 < GetAveragingBufferSize s
            then sum_list (CalculationAveragingBuffer s)
                   / real (length (CalculationAveragingBuffer s))
            else GetLastCalculatedValue s)"
proof -
  from assms have l: "length (CalculationAveragingBuffer s) = nat (CalculationAverageBufferSize s)"
    by (simp add: buffer_filled_def)
  show ?thesis
    by (simp add: GetAverageCalculatedValue_def GetAveragingBufferSize_def
        GetLastCalculatedValue_def Let_def GetAverage_loop_filled [OF l] l)
qed

lemma IntegralError_buffer_filled:
  "buffer_filled (snd (IntegralError e dt s)) = buffer_filled s"
  by (simp add: buffer_filled_def IntegralError_fields)

lemma ClampAndCacheOutput_buffer_filled:
  "buffer_filled s \<Longrightarrow> buffer_filled (snd (ClampAndCacheOutput v s))"
  by (auto simp add: buffer_filled_def ClampAndCacheOutput_def CachePreviousCalculation_def
      GetAveragingBufferSize_def Let_def)

lemma buffer_filled_update [simp]:
  "buffer_filled (s\<lparr>PreviousError := e\<rparr>) = buffer_filled s"
  "buffer_filled (s\<lparr>PreviousInput := c\<rparr>) = buffer_filled s"
  "buffer_filled (s\<lparr>TickBuffer := b\<rparr>) = buffer_filled s"
  "buffer_filled (s\<lparr>PeriodicDuration := n\<rparr>) = buffer_filled s"
  "buffer_filled (s\<lparr>P_Gain := p\<rparr>) = buffer_filled s"
  "buffer_filled (s\<lparr>I_Gain := p\<rparr>) = buffer_filled s"
  "buffer_filled (s\<lparr>D_Gain := p\<rparr>) = buffer_filled s"
  "buffer_filled (s\<lparr>bIsEnabled := en\<rparr>) = buffer_filled s"
  "buffer_filled (s\<lparr>IntegralAccumulation := p\<rparr>) = buffer_filled s"
  "buffer_filled (s\<lparr>PreviousCalculation := p\<rparr>) = buffer_filled s"
  "buffer_filled (s\<lparr>ControlledValue_Max := p\<rparr>) = buffer_filled s"
  "buffer_filled (s\<lparr>ControlledValue_Min := p\<rparr>) = buffer_filled s"
  by (simp_all add: buffer_filled_def)

lemma ClearAveragingBuffer_buffer_filled:
  "ClearAveragingBuffer s = Inr s' \<Longrightarrow> buffer_filled s'"
  by (auto simp add: buffer_filled_def ClearAveragingBuffer_eq split: if_splits)

lemma calc_buffer_filled:
  assumes "buffer_filled s"
  shows "buffer_filled (snd (snd (CalculateNewValue t c dt s)))"
    and "buffer_filled (snd (snd (CalculateNewValue_Error e dt s)))"
  using assms
  by (simp_all add: CalculateNewValue_snd CalculateNewValue_Error_snd
      ClampAndCacheOutput_buffer_filled IntegralError_buffer_filled)

lemma tick_buffer_filled:
  assumes "buffer_filled s"
  shows "buffer_filled (snd (snd (Tick t c dt s)))"
    and "buffer_filled (snd (snd (Tick_Error e dt s)))"
  using assms by (simp_all add: Tick_unfold Tick_Error_unfold calc_buffer_filled)

lemma perform_buffer_filled:
  assumes "buffer_filled s" and "perform c s = Inr (vs, s')"
  shows "buffer_filled s'"
  using assms
  by (cases c)
    (auto simp add: case_prod_beta calc_buffer_filled tick_buffer_filled TickIfEnabled_def
      TickIfEnabled_Error_def SetPeriodicDuration_def SetEnabled_eq ClearState_eq
      SetAveragingBufferSize_eq buffer_filled_def [of "_\<lparr>CalculationAveragingBuffer := _\<rparr>"]
      Let_def split: if_splits)

lemma run_buffer_filled:
  assumes "buffer_filled s" and "run cs s = Inr (vs, s')"
  shows "buffer_filled s'"
  using assms
proof (induction cs arbitrary: s vs)
  case Nil
  then show ?case by simp
next
  case (Cons c cs)
  from Cons.prems(2) obtain us s1 ws
    where p: "perform c s = Inr (us, s1)" and r: "run cs s1 = Inr (ws, s')"
    by (auto split: sum.splits)
  from Cons.IH [OF perform_buffer_filled [OF Cons.prems(1) p] r] show ?case .
qed

lemma new_buffer_filled:
  "buffer_filled (constructed p i d mx mn per)"
  by (simp add: buffer_filled_def ctor_defs)

lemma window_of_three_eq:
  "SetAveragingBufferSize 3 (constructed 1 0 0 1 0 (2 / 10)) = Inr window_of_three"
  by (simp add: window_of_three_def SetAveragingBufferSize_eq)

lemma window_of_three_filled:
  "buffer_filled window_of_three"
  by (simp add: window_of_three_def SetAveragingBufferSize_eq buffer_filled_def)

lemma after_three_outputs_run:
  "run [Calculate_Error (2 / 10) 1, Calculate_Error (4 / 10) 1, Calculate_Error (6 / 10) 1]
     window_of_three = Inr ([2 / 10, 4 / 10, 6 / 10], after_three_outputs)"
  by (simp add: after_three_outputs_def window_of_three_def SetAveragingBufferSize_eq
      ctor_defs calc_defs zero_defs Let_def)

lemma after_three_outputs_buffer:
  "CalculationAveragingBuffer after_three_outputs = [2 / 10, 4 / 10, 6 / 10] \<and>
   CalculationAverageBufferSize after_three_outputs = 3"
  by (simp add: after_three_outputs_def window_of_three_def SetAveragingBufferSize_eq
      ctor_defs calc_defs zero_defs Let_def eval_nat_numeral)

subsection \<open>What a calculation leaves behind\<close>

lemma calc_text:
  "fst (snd (CalculateNewValue t c dt s))
     = (if IsNearlyZero dt then ''delta time nearly zero'' else [])"
  "fst (snd (CalculateNewValue_Error e dt s))
     = (if IsNearlyZero dt then ''delta time nearly zero'' else [])"
  by (simp_all add: CalculateNewValue_def CalculateNewValue_Error_def Let_def case_prod_beta)

lemma calc_previous:
  "PreviousError (snd (snd (CalculateNewValue t c dt s)))
     = (if IsNearlyZero dt then PreviousError s else t - c)"
  "PreviousInput (snd (snd (CalculateNewValue t c dt s)))
     = (if IsNearlyZero dt then PreviousInput s else c)"
  "PreviousError (snd (snd (CalculateNewValue_Error e dt s)))
     = (if IsNearlyZero dt then PreviousError s else e)"
  "PreviousInput (snd (snd (CalculateNewValue_Error e dt s))) = PreviousInput s"
  by (simp_all add: CalculateNewValue_snd CalculateNewValue_Error_snd
      ClampAndCacheOutput_fields IntegralError_fields)

lemma TickBuffer_irrelevant:
  "ProportionalError e (s\<lparr>TickBuffer := b\<rparr>) = ProportionalError e s"
  "fst (IntegralError e dt (s\<lparr>TickBuffer := b\<rparr>)) = fst (IntegralError e dt s)"
  "DifferentialError e dt (s\<lparr>TickBuffer := b\<rparr>) = DifferentialError e dt s"
  "DifferentialError_PreventDerivativeKick c dt (s\<lparr>TickBuffer := b\<rparr>)
     = DifferentialError_PreventDerivativeKick c dt s"
  "fst (ClampAndCacheOutput v (s\<lparr>TickBuffer := b\<rparr>)) = fst (ClampAndCacheOutput v s)"
  by (simp_all add: ProportionalError_def IntegralError_def DifferentialError_def
      DifferentialError_PreventDerivativeKick_def ClampAndCacheOutput_fst Let_def)

lemma calc_TickBuffer:
  "fst (CalculateNewValue t c dt (s\<lparr>TickBuffer := b\<rparr>)) = fst (CalculateNewValue t c dt s)"
  "fst (CalculateNewValue_Error e dt (s\<lparr>TickBuffer := b\<rparr>))
     = fst (CalculateNewValue_Error e dt s)"
  by (simp_all add: CalculateNewValue_fst CalculateNewValue_Error_fst TickBuffer_irrelevant)


section \<open>Re-enabling a controller\<close>

lemma disabled_after_output_returned:
  "SetEnabled False False
     (snd (snd (CalculateNewValue_Error (1 / 2) 1 (constructed 1 0 0 1 0 (2 / 10)))))
   = Inr disabled_after_output"
  unfolding disabled_after_output_def by (simp add: SetEnabled_eq)

lemma disabled_after_output_fields:
  "bIsEnabled disabled_after_output = False \<and>
   PreviousCalculation disabled_after_output = 1 / 2 \<and>
   ControlledValue_Min disabled_after_output = 0 \<and>
   ControlledValue_Max disabled_after_output = 1 \<and>
   CalculationAverageBufferSize disabled_after_output = 1"
  by (simp add: disabled_after_output_def SetEnabled_eq calc_defs zero_defs ctor_defs Let_def)

lemma SetEnabled_integral_cleared:
  "\<not> bIsEnabled s \<Longrightarrow> 0 \<le> CalculationAverageBufferSize s \<Longrightarrow>
   map_sum id IntegralAccumulation (SetEnabled True c s) = Inr 0"
  by (simp add: SetEnabled_eq)

text \<open>
  C1. Enabling a disabled controller with \<^verbatim>\<open>bClearIntegralAccumulation = false\<close> is
  said to leave the integral accumulator at the clamped last output. On the disabled
  controller \<^const>\<open>disabled_after_output\<close>, whose last output 1/2 lies inside its output
  range from 0 to 1, \<^verbatim>\<open>Initialize\<close> first stores 1/2 in the accumulator and then calls
  \<^verbatim>\<open>ClearState\<close>, which sets it to 0: the call returns, and the accumulator is 0 after it
  and not 1/2.
\<close>

theorem SetEnabled_seed_lost:
  "SetEnabled False False
     (snd (snd (CalculateNewValue_Error (1 / 2) 1 (constructed 1 0 0 1 0 (2 / 10)))))
     = Inr disabled_after_output \<and>
   bIsEnabled disabled_after_output = False \<and>
   GetLastCalculatedValue disabled_after_output = 1 / 2 \<and>
   ControlledValue_Min disabled_after_output = 0 \<and>
   ControlledValue_Max disabled_after_output = 1 \<and>
   map_sum id IntegralAccumulation (SetEnabled True False disabled_after_output) = Inr 0 \<and>
   map_sum id IntegralAccumulation (SetEnabled True False disabled_after_output)
     \<noteq> Inr (GetLastCalculatedValue disabled_after_output)"
  using disabled_after_output_returned
  by (simp add: disabled_after_output_fields GetLastCalculatedValue_def
      SetEnabled_integral_cleared)

section \<open>Output range and anti-windup\<close>




section \<open>All gains zero\<close>

text \<open>
  C3, as stated: with all three gains 0 a calculation returns 0. The controller
  \<^const>\<open>frozen_integral\<close> has all gains 0 and the integral accumulator 1/2, which
  \<^verbatim>\<open>IntegralError\<close> returns unchanged for a gain that is nearly zero: both calculations
  return 1/2.
\<close>

theorem CalculateNewValue_zero_gains_nonzero:
  "P_Gain frozen_integral = 0 \<and> I_Gain frozen_integral = 0 \<and> D_Gain frozen_integral = 0 \<and>
   fst (CalculateNewValue_Error 0 1 frozen_integral) = 1 / 2 \<and>
   fst (CalculateNewValue 0 0 1 frozen_integral) = 1 / 2"
  by (simp add: frozen_integral_def calc_defs zero_defs ctor_defs Let_def)

text \<open>
  C3, amended: for every controller state whose three gains are all 0 and for every input,
  a calculation does not change the integral accumulator, and it returns the integral
  accumulator clamped to the output range (0 when deltaTime is nearly zero); so it returns
  0 whenever the accumulator is 0 and 0 lies in the output range.
\<close>

theorem CalculateNewValue_zero_gains:
  assumes "P_Gain s = 0" and "I_Gain s = 0" and "D_Gain s = 0"
  shows "IntegralAccumulation (snd (snd (CalculateNewValue t c dt s))) = IntegralAccumulation s \<and>
         IntegralAccumulation (snd (snd (CalculateNewValue_Error e dt s)))
           = IntegralAccumulation s \<and>
         fst (CalculateNewValue t c dt s) = fst (CalculateNewValue_Error e dt s) \<and>
         fst (CalculateNewValue_Error e dt s) =
           (if IsNearlyZero dt then 0
            else if IntegralAccumulation s > ControlledValue_Max s then ControlledValue_Max s
            else if IntegralAccumulation s < ControlledValue_Min s then ControlledValue_Min s
            else IntegralAccumulation s) \<and>
         (IntegralAccumulation s = 0 \<and> ControlledValue_Min s \<le> 0 \<and>
          0 \<le> ControlledValue_Max s \<longrightarrow> fst (CalculateNewValue_Error e dt s) = 0)"
  using assms by (simp add: calc_defs IsNearlyZero_def Let_def)

theorem CalculateNewValue_zero_gains_witness:
  "P_Gain (constructed 0 0 0 1 0 (2 / 10)) = 0 \<and>
   I_Gain (constructed 0 0 0 1 0 (2 / 10)) = 0 \<and>
   D_Gain (constructed 0 0 0 1 0 (2 / 10)) = 0 \<and>
   fst (CalculateNewValue 3 1 1 (constructed 0 0 0 1 0 (2 / 10))) = 0 \<and>
   fst (CalculateNewValue_Error 2 1 (constructed 0 0 0 1 0 (2 / 10))) = 0 \<and>
   IntegralAccumulation
     (snd (snd (CalculateNewValue_Error 2 1 (constructed 0 0 0 1 0 (2 / 10))))) = 0"
  using CalculateNewValue_zero_gains [of "constructed 0 0 0 1 0 (2 / 10)" 3 1 1 2]
  by (simp add: ctor_defs)

section \<open>A deltaTime that is nearly zero or negative\<close>

text \<open>
  C4, as stated: a direct calculation with a negative deltaTime returns 0 and changes
  nothing. With deltaTime -1 and error 1 a controller constructed with the default
  settings (gains 1, 0, 0 and output range 0 to 1) returns 1, writes no diagnostic and
  stores 1 as its previous error; only \<^const>\<open>IsNearlyZero\<close> guards the two calculations.
\<close>

theorem CalculateNewValue_negative_delta_runs:
  "(- 1 :: real) < 0 \<and>
   fst (CalculateNewValue_Error 1 (- 1) (constructed 1 0 0 1 0 (2 / 10))) = 1 \<and>
   fst (snd (CalculateNewValue_Error 1 (- 1) (constructed 1 0 0 1 0 (2 / 10)))) = [] \<and>
   PreviousError (constructed 1 0 0 1 0 (2 / 10)) = 0 \<and>
   PreviousError
     (snd (snd (CalculateNewValue_Error 1 (- 1) (constructed 1 0 0 1 0 (2 / 10))))) = 1 \<and>
   fst (CalculateNewValue 1 0 (- 1) (constructed 1 0 0 1 0 (2 / 10))) = 1 \<and>
   fst (snd (CalculateNewValue 1 0 (- 1) (constructed 1 0 0 1 0 (2 / 10)))) = [] \<and>
   PreviousError
     (snd (snd (CalculateNewValue 1 0 (- 1) (constructed 1 0 0 1 0 (2 / 10))))) = 1"
  by (simp add: calc_defs zero_defs ctor_defs Let_def)

text \<open>
  C4, amended: for every controller state and every deltaTime that is nearly zero (0, or
  strictly between -0.00001 and 0.00001, negative values included), either calculation
  writes the diagnostic, returns 0 and leaves the whole controller as it was. For every
  other deltaTime, negative or not, no diagnostic is written and the calculation runs: it
  returns the sum of the proportional, integral and derivative terms clamped to the output
  range, stores that value as the last output, stores the error (and, in the
  setpoint/measurement variant, the measured value) as previous error (and previous
  input), and leaves the accumulator that \<^verbatim>\<open>IntegralError\<close> computed; for a negative
  deltaTime the derivative term is 0.
\<close>

theorem CalculateNewValue_nearly_zero_delta:
  "(IsNearlyZero dt \<longrightarrow>
      CalculateNewValue t c dt s = (0, ''delta time nearly zero'', s) \<and>
      CalculateNewValue_Error e dt s = (0, ''delta time nearly zero'', s)) \<and>
   (\<not> IsNearlyZero dt \<longrightarrow>
      fst (snd (CalculateNewValue t c dt s)) = [] \<and>
      fst (CalculateNewValue t c dt s)
        = fst (ClampAndCacheOutput
                 (ProportionalError (t - c) s + fst (IntegralError (t - c) dt s)
                    + DifferentialError_PreventDerivativeKick c dt s) s) \<and>
      snd (snd (CalculateNewValue t c dt s))
        = snd (ClampAndCacheOutput
                 (ProportionalError (t - c) s + fst (IntegralError (t - c) dt s)
                    + DifferentialError_PreventDerivativeKick c dt s)
                 (snd (IntegralError (t - c) dt s)
                    \<lparr>PreviousError := t - c, PreviousInput := c\<rparr>)) \<and>
      PreviousError (snd (snd (CalculateNewValue t c dt s))) = t - c \<and>
      PreviousInput (snd (snd (CalculateNewValue t c dt s))) = c \<and>
      GetLastCalculatedValue (snd (snd (CalculateNewValue t c dt s)))
        = fst (CalculateNewValue t c dt s) \<and>
      IntegralAccumulation (snd (snd (CalculateNewValue t c dt s)))
        = fst (IntegralError (t - c) dt s) \<and>
      fst (snd (CalculateNewValue_Error e dt s)) = [] \<and>
      fst (CalculateNewValue_Error e dt s)
        = fst (ClampAndCacheOutput
                 (ProportionalError e s + fst (IntegralError e dt s)
                    + DifferentialError e dt s) s) \<and>
      snd (snd (CalculateNewValue_Error e dt s))
        = snd (ClampAndCacheOutput
                 (ProportionalError e s + fst (IntegralError e dt s)
                    + DifferentialError e dt s)
                 (snd (IntegralError e dt s)\<lparr>PreviousError := e\<rparr>)) \<and>
      PreviousError (snd (snd (CalculateNewValue_Error e dt s))) = e \<and>
      GetLastCalculatedValue (snd (snd (CalculateNewValue_Error e dt s)))
        = fst (CalculateNewValue_Error e dt s) \<and>
      IntegralAccumulation (snd (snd (CalculateNewValue_Error e dt s)))
        = fst (IntegralError e dt s) \<and>
      (dt < 0 \<longrightarrow>
         DifferentialError e dt s = 0 \<and>
         DifferentialError_PreventDerivativeKick c dt s = 0))"
proof -
  have z: "CalculateNewValue t c dt s = (0, ''delta time nearly zero'', s) \<and>
      CalculateNewValue_Error e dt s = (0, ''delta time nearly zero'', s)"
    if "IsNearlyZero dt"
    using that by (simp add: CalculateNewValue_def CalculateNewValue_Error_def)
  have m: "fst (snd (CalculateNewValue t c dt s)) = [] \<and>
      PreviousError (snd (snd (CalculateNewValue t c dt s))) = t - c \<and>
      PreviousInput (snd (snd (CalculateNewValue t c dt s))) = c \<and>
      GetLastCalculatedValue (snd (snd (CalculateNewValue t c dt s)))
        = fst (CalculateNewValue t c dt s) \<and>
      IntegralAccumulation (snd (snd (CalculateNewValue t c dt s)))
        = fst (IntegralError (t - c) dt s)"
    if "\<not> IsNearlyZero dt"
    using that
    by (simp add: calc_text calc_previous calc_last calc_integral GetLastCalculatedValue_def)
  have r: "fst (snd (CalculateNewValue_Error e dt s)) = [] \<and>
      PreviousError (snd (snd (CalculateNewValue_Error e dt s))) = e \<and>
      GetLastCalculatedValue (snd (snd (CalculateNewValue_Error e dt s)))
        = fst (CalculateNewValue_Error e dt s) \<and>
      IntegralAccumulation (snd (snd (CalculateNewValue_Error e dt s)))
        = fst (IntegralError e dt s)"
    if "\<not> IsNearlyZero dt"
    using that
    by (simp add: calc_text calc_previous calc_last calc_integral GetLastCalculatedValue_def)
  have d: "DifferentialError e dt s = 0 \<and> DifferentialError_PreventDerivativeKick c dt s = 0"
    if "dt < 0"
    using that
    by (simp add: DifferentialError_def DifferentialError_PreventDerivativeKick_def)
  from z m r d show ?thesis
    by (simp add: CalculateNewValue_fst CalculateNewValue_Error_fst CalculateNewValue_snd
        CalculateNewValue_Error_snd)
qed

theorem CalculateNewValue_nearly_zero_delta_witness:
  "IsNearlyZero (- 1 / 1048576) \<and>
   CalculateNewValue 1 0 (- 1 / 1048576) (constructed 1 1 1 4 0 1)
     = (0, ''delta time nearly zero'', constructed 1 1 1 4 0 1) \<and>
   CalculateNewValue_Error 1 (- 1 / 1048576) (constructed 1 1 1 4 0 1)
     = (0, ''delta time nearly zero'', constructed 1 1 1 4 0 1) \<and>
   \<not> IsNearlyZero (- 2) \<and> (- 2 :: real) < 0 \<and>
   fst (snd (CalculateNewValue_Error 3 (- 2) (constructed 1 1 1 4 0 1))) = [] \<and>
   fst (CalculateNewValue_Error 3 (- 2) (constructed 1 1 1 4 0 1)) = 3 \<and>
   PreviousError (snd (snd (CalculateNewValue_Error 3 (- 2) (constructed 1 1 1 4 0 1)))) = 3 \<and>
   DifferentialError 3 (- 2) (constructed 1 1 1 4 0 1) = 0 \<and>
   PreviousInput (snd (snd (CalculateNewValue 5 2 (- 2) (constructed 1 1 1 4 0 1)))) = 2"
  using CalculateNewValue_nearly_zero_delta [of "- 1 / 1048576" 1 0 "constructed 1 1 1 4 0 1" 1]
    CalculateNewValue_nearly_zero_delta [of "- 2" 5 2 "constructed 1 1 1 4 0 1" 3]
  by (simp add: calc_defs zero_defs ctor_defs Let_def)

section \<open>Accumulating ticks up to the period\<close>

text \<open>
  C5, as stated: when the accumulated time reaches the period, exactly one calculation is
  performed with the period as its deltaTime. For a controller with gains 1, 1, 1 and the
  period 1/1048576, which is positive and nearly zero, a tick with deltaTime 1/1048576
  fills the buffer to the period and returns true, but the calculation it calls rejects
  the period as its deltaTime: the controller after the tick is the controller before it,
  with previous error 0 and not the error 1.
\<close>

theorem Tick_tiny_period_no_calculation:
  "0 < PeriodicDuration (constructed 1 1 1 1 0 (1 / 1048576)) \<and>
   (0::real) < 1 / 1048576 \<and>
   1 / 1048576 \<le> PeriodicDuration (constructed 1 1 1 1 0 (1 / 1048576)) \<and>
   PeriodicDuration (constructed 1 1 1 1 0 (1 / 1048576))
     \<le> TickBuffer (constructed 1 1 1 1 0 (1 / 1048576)) + 1 / 1048576 \<and>
   Tick 1 0 (1 / 1048576) (constructed 1 1 1 1 0 (1 / 1048576))
     = (True, ''delta time nearly zero'', constructed 1 1 1 1 0 (1 / 1048576)) \<and>
   Tick_Error 1 (1 / 1048576) (constructed 1 1 1 1 0 (1 / 1048576))
     = (True, ''delta time nearly zero'', constructed 1 1 1 1 0 (1 / 1048576)) \<and>
   PreviousError (constructed 1 1 1 1 0 (1 / 1048576)) = 0"
  by (simp add: Tick_unfold Tick_Error_unfold AccumulateBuffer_unfold CalculateNewValue_def
      CalculateNewValue_Error_def zero_defs ctor_defs)

text \<open>
  C5, amended: for every controller state with a period \<open>T > 0\<close> that is not nearly zero
  and every tick with \<open>0 < dt \<le> T\<close> (hence at every step of a sequence of such ticks,
  since a tick does not change the period): \<^verbatim>\<open>AccumulateBuffer\<close> adds \<open>dt\<close> to the buffer
  and reports whether the sum has reached \<open>T\<close>. While it has not, the tick keeps the sum
  in the buffer, returns false and leaves the last output as it was; when it has, the tick
  keeps the sum minus \<open>T\<close> in the buffer, performs the one calculation with \<open>T\<close> as its
  deltaTime and returns true. The calculation writes no diagnostic, stores the error (and
  the measured value) as previous error (and previous input), stores the clamped sum of
  the three terms for deltaTime \<open>T\<close> as the last output and leaves the accumulator that
  \<^verbatim>\<open>IntegralError\<close> computed for \<open>T\<close>.
\<close>

theorem Tick_accumulates_to_period:
  assumes "PeriodicDuration s = T" and "0 < T" and "\<not> IsNearlyZero T"
    and "0 < dt" and "dt \<le> T"
  shows "AccumulateBuffer (TickBuffer s) dt T
           = (if T \<le> TickBuffer s + dt then (True, TickBuffer s + dt - T)
              else (False, TickBuffer s + dt)) \<and>
         (\<not> fst (AccumulateBuffer (TickBuffer s) dt T) \<longrightarrow>
            Tick t c dt s
              = (False, [], s\<lparr>TickBuffer := snd (AccumulateBuffer (TickBuffer s) dt T)\<rparr>) \<and>
            Tick_Error e dt s
              = (False, [], s\<lparr>TickBuffer := snd (AccumulateBuffer (TickBuffer s) dt T)\<rparr>) \<and>
            GetLastCalculatedValue (snd (snd (Tick t c dt s))) = GetLastCalculatedValue s \<and>
            GetLastCalculatedValue (snd (snd (Tick_Error e dt s)))
              = GetLastCalculatedValue s) \<and>
         (fst (AccumulateBuffer (TickBuffer s) dt T) \<longrightarrow>
            Tick t c dt s
              = (True, snd (CalculateNewValue t c T
                              (s\<lparr>TickBuffer :=
                                   snd (AccumulateBuffer (TickBuffer s) dt T)\<rparr>))) \<and>
            fst (snd (Tick t c dt s)) = [] \<and>
            TickBuffer (snd (snd (Tick t c dt s)))
              = snd (AccumulateBuffer (TickBuffer s) dt T) \<and>
            PreviousError (snd (snd (Tick t c dt s))) = t - c \<and>
            PreviousInput (snd (snd (Tick t c dt s))) = c \<and>
            GetLastCalculatedValue (snd (snd (Tick t c dt s)))
              = fst (ClampAndCacheOutput
                       (ProportionalError (t - c) s + fst (IntegralError (t - c) T s)
                          + DifferentialError_PreventDerivativeKick c T s) s) \<and>
            IntegralAccumulation (snd (snd (Tick t c dt s)))
              = fst (IntegralError (t - c) T s) \<and>
            Tick_Error e dt s
              = (True, snd (CalculateNewValue_Error e T
                              (s\<lparr>TickBuffer :=
                                   snd (AccumulateBuffer (TickBuffer s) dt T)\<rparr>))) \<and>
            fst (snd (Tick_Error e dt s)) = [] \<and>
            TickBuffer (snd (snd (Tick_Error e dt s)))
              = snd (AccumulateBuffer (TickBuffer s) dt T) \<and>
            PreviousError (snd (snd (Tick_Error e dt s))) = e \<and>
            GetLastCalculatedValue (snd (snd (Tick_Error e dt s)))
              = fst (ClampAndCacheOutput
                       (ProportionalError e s + fst (IntegralError e T s)
                          + DifferentialError e T s) s) \<and>
            IntegralAccumulation (snd (snd (Tick_Error e dt s)))
              = fst (IntegralError e T s)) \<and>
         PeriodicDuration (snd (snd (Tick t c dt s))) = T \<and>
         PeriodicDuration (snd (snd (Tick_Error e dt s))) = T"
proof -
  let ?a = "AccumulateBuffer (TickBuffer s) dt T"
  have 0: "?a = (if T \<le> TickBuffer s + dt then (True, TickBuffer s + dt - T)
                 else (False, TickBuffer s + dt))"
    by (rule AccumulateBuffer_unfold)
  have idle: "Tick t c dt s = (False, [], s\<lparr>TickBuffer := snd ?a\<rparr>) \<and>
      Tick_Error e dt s = (False, [], s\<lparr>TickBuffer := snd ?a\<rparr>)"
    if "\<not> fst ?a"
    using assms that by (simp add: Tick_unfold Tick_Error_unfold)
  have run: "Tick t c dt s = (True, snd (CalculateNewValue t c T (s\<lparr>TickBuffer := snd ?a\<rparr>))) \<and>
      Tick_Error e dt s = (True, snd (CalculateNewValue_Error e T (s\<lparr>TickBuffer := snd ?a\<rparr>)))"
    if "fst ?a"
    using assms that by (simp add: Tick_unfold Tick_Error_unfold)
  have per: "PeriodicDuration (snd (snd (Tick t c dt s))) = T"
    "PeriodicDuration (snd (snd (Tick_Error e dt s))) = T"
    using assms by (simp_all add: tick_period)
  from idle have 1: "\<not> fst ?a \<longrightarrow>
            Tick t c dt s = (False, [], s\<lparr>TickBuffer := snd ?a\<rparr>) \<and>
            Tick_Error e dt s = (False, [], s\<lparr>TickBuffer := snd ?a\<rparr>) \<and>
            GetLastCalculatedValue (snd (snd (Tick t c dt s))) = GetLastCalculatedValue s \<and>
            GetLastCalculatedValue (snd (snd (Tick_Error e dt s)))
              = GetLastCalculatedValue s"
    by (simp add: GetLastCalculatedValue_def)
  from run assms(3) have 2: "fst ?a \<longrightarrow>
            Tick t c dt s = (True, snd (CalculateNewValue t c T (s\<lparr>TickBuffer := snd ?a\<rparr>))) \<and>
            fst (snd (Tick t c dt s)) = [] \<and>
            TickBuffer (snd (snd (Tick t c dt s))) = snd ?a \<and>
            PreviousError (snd (snd (Tick t c dt s))) = t - c \<and>
            PreviousInput (snd (snd (Tick t c dt s))) = c \<and>
            GetLastCalculatedValue (snd (snd (Tick t c dt s)))
              = fst (ClampAndCacheOutput
                       (ProportionalError (t - c) s + fst (IntegralError (t - c) T s)
                          + DifferentialError_PreventDerivativeKick c T s) s) \<and>
            IntegralAccumulation (snd (snd (Tick t c dt s)))
              = fst (IntegralError (t - c) T s)"
    by (simp add: calc_text calc_keeps calc_previous calc_last calc_integral
        GetLastCalculatedValue_def CalculateNewValue_fst TickBuffer_irrelevant)
  from run assms(3) have 3: "fst ?a \<longrightarrow>
            Tick_Error e dt s
              = (True, snd (CalculateNewValue_Error e T (s\<lparr>TickBuffer := snd ?a\<rparr>))) \<and>
            fst (snd (Tick_Error e dt s)) = [] \<and>
            TickBuffer (snd (snd (Tick_Error e dt s))) = snd ?a \<and>
            PreviousError (snd (snd (Tick_Error e dt s))) = e \<and>
            GetLastCalculatedValue (snd (snd (Tick_Error e dt s)))
              = fst (ClampAndCacheOutput
                       (ProportionalError e s + fst (IntegralError e T s)
                          + DifferentialError e T s) s) \<and>
            IntegralAccumulation (snd (snd (Tick_Error e dt s)))
              = fst (IntegralError e T s)"
    by (simp add: calc_text calc_keeps calc_previous calc_last calc_integral
        GetLastCalculatedValue_def CalculateNewValue_Error_fst TickBuffer_irrelevant)
  from 0 1 2 3 per show ?thesis by blast
qed

theorem Tick_accumulates_to_period_witness:
  "PeriodicDuration (constructed 1 0 0 1 0 (1 / 4)) = 1 / 4 \<and> (0::real) < 1 / 4 \<and>
   \<not> IsNearlyZero (1 / 4) \<and> (0::real) < 3 / 16 \<and> (3 / 16 :: real) \<le> 1 / 4 \<and>
   AccumulateBuffer 0 (3 / 16) (1 / 4) = (False, 3 / 16) \<and>
   Tick_Error (1 / 2) (3 / 16) (constructed 1 0 0 1 0 (1 / 4))
     = (False, [], (constructed 1 0 0 1 0 (1 / 4))\<lparr>TickBuffer := 3 / 16\<rparr>) \<and>
   AccumulateBuffer (3 / 16) (3 / 16) (1 / 4) = (True, 1 / 8) \<and>
   fst (Tick_Error (1 / 2) (3 / 16) ((constructed 1 0 0 1 0 (1 / 4))\<lparr>TickBuffer := 3 / 16\<rparr>))
     = True \<and>
   TickBuffer
     (snd (snd (Tick_Error (1 / 2) (3 / 16)
                  ((constructed 1 0 0 1 0 (1 / 4))\<lparr>TickBuffer := 3 / 16\<rparr>)))) = 1 / 8 \<and>
   PreviousError
     (snd (snd (Tick_Error (1 / 2) (3 / 16)
                  ((constructed 1 0 0 1 0 (1 / 4))\<lparr>TickBuffer := 3 / 16\<rparr>)))) = 1 / 2 \<and>
   GetLastCalculatedValue
     (snd (snd (Tick_Error (1 / 2) (3 / 16)
                  ((constructed 1 0 0 1 0 (1 / 4))\<lparr>TickBuffer := 3 / 16\<rparr>)))) = 1 / 2"
  using Tick_accumulates_to_period
      [of "constructed 1 0 0 1 0 (1 / 4)" "1 / 4" "3 / 16" 1 0 "1 / 2"]
    Tick_accumulates_to_period
      [of "(constructed 1 0 0 1 0 (1 / 4))\<lparr>TickBuffer := 3 / 16\<rparr>" "1 / 4" "3 / 16" 1 0
        "1 / 2"]
  by (simp add: Tick_Error_unfold AccumulateBuffer_unfold calc_defs zero_defs ctor_defs
      GetLastCalculatedValue_def Let_def)

section \<open>The range of the tick buffer\<close>

text \<open>
  C6, as stated: after a successful tick the buffer of a reachable controller with a
  positive period is below the period, unless deltaTime exceeds the period. The controller
  \<^const>\<open>period_lowered\<close> is reached by a tick of 3/4 with period 1 followed by
  \<^verbatim>\<open>SetPeriodicDuration(1/4)\<close>, which leaves the buffer at 3/4; a tick with deltaTime 1/8,
  which does not exceed the period 1/4, then returns true and leaves 5/8 in the buffer.
\<close>

theorem Tick_buffer_above_lowered_period:
  "0 < PeriodicDuration period_lowered \<and>
   (1 / 8 :: real) \<le> PeriodicDuration period_lowered \<and>
   fst (Tick_Error 0 (1 / 8) period_lowered) = True \<and>
   PeriodicDuration (snd (snd (Tick_Error 0 (1 / 8) period_lowered))) = 1 / 4 \<and>
   TickBuffer (snd (snd (Tick_Error 0 (1 / 8) period_lowered))) = 5 / 8 \<and>
   \<not> (5 / 8 < (1 / 4 :: real))"
  by (simp add: period_lowered_def Tick_Error_unfold AccumulateBuffer_unfold
      SetPeriodicDuration_def calc_defs zero_defs ctor_defs Let_def)

text \<open>
  C6, amended: for every controller state with period \<open>> 0\<close> and buffer \<open>\<ge> 0\<close>, the
  buffer is \<open>\<ge> 0\<close> after every tick that returns true and after every tick with
  deltaTime \<open>\<ge> 0\<close>. When moreover deltaTime does not exceed the period, the buffer before
  the call is at most the period and the period is at most \<open>10 ^ 38\<close>, the buffer after
  the call is at most the period; the bound is not strict, since the sum of buffer and
  deltaTime is rounded before the period is subtracted. When deltaTime exceeds the period,
  the tick returns true, \<^verbatim>\<open>AccumulateBuffer\<close> with deltaTime as its bucket size overflows
  and leaves the sum of buffer and deltaTime minus deltaTime in the buffer, and the
  calculation is called in that call with the full deltaTime; it takes effect when that
  deltaTime is not nearly zero.
\<close>

theorem Tick_buffer_range:
  assumes "0 < PeriodicDuration s" and "0 \<le> TickBuffer s"
  shows "(fst (Tick t c dt s) \<or> 0 \<le> dt \<longrightarrow>
            0 \<le> TickBuffer (snd (snd (Tick t c dt s)))) \<and>
         (fst (Tick_Error e dt s) \<or> 0 \<le> dt \<longrightarrow>
            0 \<le> TickBuffer (snd (snd (Tick_Error e dt s)))) \<and>
         (dt \<le> PeriodicDuration s \<and> TickBuffer s \<le> PeriodicDuration s \<and>
          PeriodicDuration s \<le> 10 ^ 38 \<longrightarrow>
            TickBuffer (snd (snd (Tick t c dt s)))
              \<le> PeriodicDuration (snd (snd (Tick t c dt s))) \<and>
            TickBuffer (snd (snd (Tick_Error e dt s)))
              \<le> PeriodicDuration (snd (snd (Tick_Error e dt s)))) \<and>
         (PeriodicDuration s < dt \<longrightarrow>
            fst (AccumulateBuffer (TickBuffer s) dt dt) \<and>
            fst (Tick t c dt s) \<and>
            snd (Tick t c dt s)
              = snd (CalculateNewValue t c dt
                       (s\<lparr>TickBuffer := snd (AccumulateBuffer (TickBuffer s) dt dt)\<rparr>)) \<and>
            TickBuffer (snd (snd (Tick t c dt s)))
              = snd (AccumulateBuffer (TickBuffer s) dt dt) \<and>
            fst (Tick_Error e dt s) \<and>
            snd (Tick_Error e dt s)
              = snd (CalculateNewValue_Error e dt
                       (s\<lparr>TickBuffer := snd (AccumulateBuffer (TickBuffer s) dt dt)\<rparr>)) \<and>
            TickBuffer (snd (snd (Tick_Error e dt s)))
              = snd (AccumulateBuffer (TickBuffer s) dt dt) \<and>
            (\<not> IsNearlyZero dt \<longrightarrow>
               fst (snd (Tick t c dt s)) = [] \<and>
               PreviousError (snd (snd (Tick t c dt s))) = t - c \<and>
               PreviousInput (snd (snd (Tick t c dt s))) = c \<and>
               GetLastCalculatedValue (snd (snd (Tick t c dt s)))
                 = fst (ClampAndCacheOutput
                          (ProportionalError (t - c) s + fst (IntegralError (t - c) dt s)
                             + DifferentialError_PreventDerivativeKick c dt s) s) \<and>
               fst (snd (Tick_Error e dt s)) = [] \<and>
               PreviousError (snd (snd (Tick_Error e dt s))) = e \<and>
               GetLastCalculatedValue (snd (snd (Tick_Error e dt s)))
                 = fst (ClampAndCacheOutput
                          (ProportionalError e s + fst (IntegralError e dt s)
                             + DifferentialError e dt s) s)))"
proof -
  have 1: "fst (Tick t c dt s) \<or> 0 \<le> dt \<longrightarrow> 0 \<le> TickBuffer (snd (snd (Tick t c dt s)))"
    using assms by (simp add: tick_buffer tick_flag AccumulateBuffer_unfold)
  have 2: "fst (Tick_Error e dt s) \<or> 0 \<le> dt \<longrightarrow>
      0 \<le> TickBuffer (snd (snd (Tick_Error e dt s)))"
    using assms by (simp add: tick_buffer tick_flag AccumulateBuffer_unfold)
  have 3: "dt \<le> PeriodicDuration s \<and> TickBuffer s \<le> PeriodicDuration s \<and>
          PeriodicDuration s \<le> 10 ^ 38 \<longrightarrow>
            TickBuffer (snd (snd (Tick t c dt s)))
              \<le> PeriodicDuration (snd (snd (Tick t c dt s))) \<and>
            TickBuffer (snd (snd (Tick_Error e dt s)))
              \<le> PeriodicDuration (snd (snd (Tick_Error e dt s)))"
    using assms by (simp add: tick_buffer tick_period AccumulateBuffer_unfold)
  have a: "fst (AccumulateBuffer (TickBuffer s) dt dt)"
    using assms by (simp add: AccumulateBuffer_unfold)
  have 4: "fst (Tick t c dt s) \<and>
      snd (Tick t c dt s)
        = snd (CalculateNewValue t c dt
                 (s\<lparr>TickBuffer := snd (AccumulateBuffer (TickBuffer s) dt dt)\<rparr>)) \<and>
      TickBuffer (snd (snd (Tick t c dt s))) = snd (AccumulateBuffer (TickBuffer s) dt dt) \<and>
      fst (Tick_Error e dt s) \<and>
      snd (Tick_Error e dt s)
        = snd (CalculateNewValue_Error e dt
                 (s\<lparr>TickBuffer := snd (AccumulateBuffer (TickBuffer s) dt dt)\<rparr>)) \<and>
      TickBuffer (snd (snd (Tick_Error e dt s)))
        = snd (AccumulateBuffer (TickBuffer s) dt dt)"
    if "PeriodicDuration s < dt"
    using assms that by (simp add: Tick_unfold Tick_Error_unfold calc_keeps)
  have 5: "fst (snd (Tick t c dt s)) = [] \<and>
      PreviousError (snd (snd (Tick t c dt s))) = t - c \<and>
      PreviousInput (snd (snd (Tick t c dt s))) = c \<and>
      GetLastCalculatedValue (snd (snd (Tick t c dt s)))
        = fst (ClampAndCacheOutput
                 (ProportionalError (t - c) s + fst (IntegralError (t - c) dt s)
                    + DifferentialError_PreventDerivativeKick c dt s) s) \<and>
      fst (snd (Tick_Error e dt s)) = [] \<and>
      PreviousError (snd (snd (Tick_Error e dt s))) = e \<and>
      GetLastCalculatedValue (snd (snd (Tick_Error e dt s)))
        = fst (ClampAndCacheOutput
                 (ProportionalError e s + fst (IntegralError e dt s)
                    + DifferentialError e dt s) s)"
    if "PeriodicDuration s < dt" and "\<not> IsNearlyZero dt"
    using assms that
    by (simp add: Tick_unfold Tick_Error_unfold calc_text calc_previous calc_last
        GetLastCalculatedValue_def CalculateNewValue_fst CalculateNewValue_Error_fst
        TickBuffer_irrelevant)
  from 1 2 3 a 4 5 show ?thesis by blast
qed

theorem Tick_buffer_range_witness:
  "0 < PeriodicDuration (constructed 1 0 0 1 0 1) \<and>
   0 \<le> TickBuffer (constructed 1 0 0 1 0 1) \<and>
   TickBuffer (constructed 1 0 0 1 0 1) \<le> PeriodicDuration (constructed 1 0 0 1 0 1) \<and>
   PeriodicDuration (constructed 1 0 0 1 0 1) \<le> 10 ^ 38 \<and>
   TickBuffer (snd (snd (Tick 1 0 (3 / 4) (constructed 1 0 0 1 0 1)))) = 3 / 4 \<and>
   0 \<le> TickBuffer (snd (snd (Tick 1 0 (3 / 4) (constructed 1 0 0 1 0 1)))) \<and>
   TickBuffer (snd (snd (Tick 1 0 (3 / 4) (constructed 1 0 0 1 0 1)))) \<le> 1 \<and>
   PeriodicDuration (constructed 1 0 0 1 0 1) < 2 \<and> \<not> IsNearlyZero 2 \<and>
   fst (Tick_Error 1 2 (constructed 1 0 0 1 0 1)) \<and>
   TickBuffer (snd (snd (Tick_Error 1 2 (constructed 1 0 0 1 0 1)))) = 0 \<and>
   PreviousError (snd (snd (Tick_Error 1 2 (constructed 1 0 0 1 0 1)))) = 1 \<and>
   GetLastCalculatedValue (snd (snd (Tick_Error 1 2 (constructed 1 0 0 1 0 1)))) = 1"
  using Tick_buffer_range [of "constructed 1 0 0 1 0 1" 1 0 "3 / 4" 1]
    Tick_buffer_range [of "constructed 1 0 0 1 0 1" 1 0 2 1]
  by (simp add: Tick_unfold Tick_Error_unfold AccumulateBuffer_unfold calc_defs zero_defs
      ctor_defs GetLastCalculatedValue_def Let_def)

section \<open>Changing the period\<close>

text \<open>
  C7. \<^verbatim>\<open>SetPeriodicDuration\<close> multiplies the integral gain by the ratio of the new
  period to the old one and divides the derivative gain by it exactly when both periods are
  positive and not nearly zero, and stores the new period in every case. With old period
  0.2, new period 0.1, integral gain 2 and derivative gain 1 the gains become 1 and 2. When
  either period is at most 0 the gains stay as they are.
\<close>

theorem SetPeriodicDuration_rescales:
  "SetPeriodicDuration n s =
     (if 0 < n \<and> \<not> IsNearlyZero n \<and> 0 < PeriodicDuration s \<and>
         \<not> IsNearlyZero (PeriodicDuration s)
      then s\<lparr>I_Gain := I_Gain s * (n / PeriodicDuration s),
             D_Gain := D_Gain s / (n / PeriodicDuration s),
             PeriodicDuration := n\<rparr>
      else s\<lparr>PeriodicDuration := n\<rparr>) \<and>
   (PeriodicDuration s = 2 / 10 \<and> I_Gain s = 2 \<and> D_Gain s = 1 \<longrightarrow>
      I_Gain (SetPeriodicDuration (1 / 10) s) = 1 \<and>
      D_Gain (SetPeriodicDuration (1 / 10) s) = 2 \<and>
      PeriodicDuration (SetPeriodicDuration (1 / 10) s) = 1 / 10) \<and>
   (n \<le> 0 \<or> PeriodicDuration s \<le> 0 \<longrightarrow>
      I_Gain (SetPeriodicDuration n s) = I_Gain s \<and>
      D_Gain (SetPeriodicDuration n s) = D_Gain s \<and>
      PeriodicDuration (SetPeriodicDuration n s) = n)"
  by (auto simp add: SetPeriodicDuration_def Let_def zero_defs)

theorem SetPeriodicDuration_rescales_witness:
  "PeriodicDuration (constructed 1 2 1 1 0 (2 / 10)) = 2 / 10 \<and>
   I_Gain (constructed 1 2 1 1 0 (2 / 10)) = 2 \<and>
   D_Gain (constructed 1 2 1 1 0 (2 / 10)) = 1 \<and>
   I_Gain (SetPeriodicDuration (1 / 10) (constructed 1 2 1 1 0 (2 / 10))) = 1 \<and>
   D_Gain (SetPeriodicDuration (1 / 10) (constructed 1 2 1 1 0 (2 / 10))) = 2 \<and>
   PeriodicDuration (SetPeriodicDuration (1 / 10) (constructed 1 2 1 1 0 (2 / 10)))
     = 1 / 10 \<and>
   I_Gain (SetPeriodicDuration 0 (constructed 1 2 1 1 0 (2 / 10))) = 2 \<and>
   D_Gain (SetPeriodicDuration 0 (constructed 1 2 1 1 0 (2 / 10))) = 1"
  using SetPeriodicDuration_rescales [of "1 / 10" "constructed 1 2 1 1 0 (2 / 10)"]
    SetPeriodicDuration_rescales [of 0 "constructed 1 2 1 1 0 (2 / 10)"]
  by (simp add: ctor_defs)

section \<open>Derivative kick\<close>




section \<open>The average of the window\<close>

text \<open>
  C9. For every controller whose averaging buffer is filled to its size, as it is after
  construction, and after any sequence of calls on it that returns:
  \<^verbatim>\<open>GetAverageCalculatedValue\<close> returns the sum of the window divided by its length when
  the size is above 1, and the last output otherwise. Setting a size that is not negative
  replaces the window by that many zeros; for a negative size the call throws
  \<^verbatim>\<open>std::length_error\<close>. With window size 3 and the outputs 0.2, 0.4 and 0.6 the window
  holds these three values and the average is 0.4.
\<close>

theorem GetAverageCalculatedValue_mean:
  assumes "buffer_filled s0" and "run cs s0 = Inr (vs, s)"
  shows "GetAverageCalculatedValue s =
           (if 1 < GetAveragingBufferSize s
            then sum_list (CalculationAveragingBuffer s)
                   / real (length (CalculationAveragingBuffer s))
            else GetLastCalculatedValue s) \<and>
         (0 \<le> n \<longrightarrow>
            SetAveragingBufferSize n s
              = Inr (s\<lparr>CalculationAverageBufferSize := n,
                       CalculationAveragingBuffer := replicate (nat n) 0\<rparr>)) \<and>
         (n < 0 \<longrightarrow> SetAveragingBufferSize n s = Inl length_error) \<and>
         SetAveragingBufferSize 3 (constructed 1 0 0 1 0 (2 / 10)) = Inr window_of_three \<and>
         run [Calculate_Error (2 / 10) 1, Calculate_Error (4 / 10) 1,
              Calculate_Error (6 / 10) 1] window_of_three
           = Inr ([2 / 10, 4 / 10, 6 / 10], after_three_outputs) \<and>
         CalculationAveragingBuffer after_three_outputs = [2 / 10, 4 / 10, 6 / 10] \<and>
         GetAverageCalculatedValue after_three_outputs = 4 / 10"
proof -
  from assms have "buffer_filled s" by (rule run_buffer_filled)
  then have 1: "GetAverageCalculatedValue s =
           (if 1 < GetAveragingBufferSize s
            then sum_list (CalculationAveragingBuffer s)
                   / real (length (CalculationAveragingBuffer s))
            else GetLastCalculatedValue s)"
    by (rule average_of_filled)
  have 2: "0 \<le> n \<longrightarrow>
            SetAveragingBufferSize n s
              = Inr (s\<lparr>CalculationAverageBufferSize := n,
                       CalculationAveragingBuffer := replicate (nat n) 0\<rparr>)"
    "n < 0 \<longrightarrow> SetAveragingBufferSize n s = Inl length_error"
    by (simp_all add: SetAveragingBufferSize_eq)
  from window_of_three_filled after_three_outputs_run
  have "buffer_filled after_three_outputs" by (rule run_buffer_filled)
  from average_of_filled [OF this]
  have 3: "GetAverageCalculatedValue after_three_outputs = 4 / 10"
    by (simp add: after_three_outputs_buffer GetAveragingBufferSize_def)
  from 1 2 3 after_three_outputs_buffer window_of_three_eq after_three_outputs_run
  show ?thesis by blast
qed

theorem GetAverageCalculatedValue_mean_witness:
  "buffer_filled (constructed 1 0 0 1 0 1) \<and>
   run [SetAveragingBufferSize_call 2, Calculate_Error (1 / 2) 1] (constructed 1 0 0 1 0 1)
     = Inr ([1 / 2],
            (constructed 1 0 0 1 0 1)
              \<lparr>CalculationAveragingBuffer := [0, 1 / 2], CalculationAverageBufferSize := 2,
               PreviousError := 1 / 2, PreviousCalculation := 1 / 2\<rparr>) \<and>
   GetAverageCalculatedValue
     ((constructed 1 0 0 1 0 1)
        \<lparr>CalculationAveragingBuffer := [0, 1 / 2], CalculationAverageBufferSize := 2,
         PreviousError := 1 / 2, PreviousCalculation := 1 / 2\<rparr>) = 1 / 4 \<and>
   map_sum id CalculationAveragingBuffer
     (SetAveragingBufferSize 1
        ((constructed 1 0 0 1 0 1)
           \<lparr>CalculationAveragingBuffer := [0, 1 / 2], CalculationAverageBufferSize := 2,
            PreviousError := 1 / 2, PreviousCalculation := 1 / 2\<rparr>)) = Inr [0] \<and>
   SetAveragingBufferSize (- 1)
     ((constructed 1 0 0 1 0 1)
        \<lparr>CalculationAveragingBuffer := [0, 1 / 2], CalculationAverageBufferSize := 2,
         PreviousError := 1 / 2, PreviousCalculation := 1 / 2\<rparr>) = Inl length_error"
proof -
  let ?s = "constructed 1 0 0 1 0 1"
  let ?s1 = "?s\<lparr>CalculationAveragingBuffer := [0, 1 / 2], CalculationAverageBufferSize := 2,
               PreviousError := 1 / 2, PreviousCalculation := 1 / 2\<rparr>"
  have h: "buffer_filled ?s" by (rule new_buffer_filled)
  have r: "run [SetAveragingBufferSize_call 2, Calculate_Error (1 / 2) 1] ?s = Inr ([1 / 2], ?s1)"
    by (simp add: SetAveragingBufferSize_eq ctor_defs calc_defs zero_defs Let_def
        eval_nat_numeral)
  from GetAverageCalculatedValue_mean [OF h r, of 1]
    GetAverageCalculatedValue_mean [OF h r, of "- 1"] h r
  show ?thesis
    by (simp add: GetAveragingBufferSize_def ctor_defs)
qed

section \<open>A tick that reports a calculation that did not run\<close>

text \<open>
  C10. When the period is at most 0, or deltaTime exceeds a positive period, \<^verbatim>\<open>Tick\<close>
  returns true whatever the calculation does. If that deltaTime is nearly zero, the
  calculation only writes its diagnostic: with a period at most 0, or with a buffer that is
  not negative in the overshoot branch, the controller after the tick is the controller
  before it, last output and run-time state included, although the tick returned true.
\<close>

theorem Tick_true_without_calculation:
  "(PeriodicDuration s \<le> 0 \<or> PeriodicDuration s < dt \<longrightarrow>
      fst (Tick t c dt s) = True \<and> fst (Tick_Error e dt s) = True) \<and>
   (IsNearlyZero dt \<and>
    (PeriodicDuration s \<le> 0 \<or> (PeriodicDuration s < dt \<and> 0 \<le> TickBuffer s)) \<longrightarrow>
      Tick t c dt s = (True, ''delta time nearly zero'', s) \<and>
      Tick_Error e dt s = (True, ''delta time nearly zero'', s))"
  by (auto simp add: Tick_def Tick_Error_def AccumulateBuffer_def CalculateNewValue_def
      CalculateNewValue_Error_def Let_def split: prod.splits)

theorem Tick_true_without_calculation_witness:
  "PeriodicDuration (constructed 1 1 1 1 0 0) \<le> 0 \<and> IsNearlyZero 0 \<and>
   Tick 1 0 0 (constructed 1 1 1 1 0 0)
     = (True, ''delta time nearly zero'', constructed 1 1 1 1 0 0) \<and>
   Tick_Error 1 0 (constructed 1 1 1 1 0 0)
     = (True, ''delta time nearly zero'', constructed 1 1 1 1 0 0) \<and>
   PeriodicDuration (constructed 1 1 1 1 0 (1 / 1000000)) < 2 / 1000000 \<and>
   IsNearlyZero (2 / 1000000) \<and>
   Tick 1 0 (2 / 1000000) (constructed 1 1 1 1 0 (1 / 1000000))
     = (True, ''delta time nearly zero'', constructed 1 1 1 1 0 (1 / 1000000)) \<and>
   Tick_Error 1 (2 / 1000000) (constructed 1 1 1 1 0 (1 / 1000000))
     = (True, ''delta time nearly zero'', constructed 1 1 1 1 0 (1 / 1000000))"
  using Tick_true_without_calculation [of "constructed 1 1 1 1 0 0" 0 1 0 1]
    Tick_true_without_calculation
      [of "constructed 1 1 1 1 0 (1 / 1000000)" "2 / 1000000" 1 0 1]
  by (simp add: ctor_defs zero_defs)

end
